theory Spec2Isabelle
  imports Main
begin

section \<open>Shared types of the CRUD layer\<close>

text \<open>
  The CRUD layer of the repository (the abstract \<open>CrudService\<close>, the
  \<open>CrudConsumer\<close> pattern and the \<open>ProductFacade\<close>) is embedded as pure functions.
  A call returns the settled state of its promise together with the trace of the
  effects it performed (log lines, HTTP requests, console warnings).
\<close>

type_synonym Url = string
type_synonym ShortText = string

text \<open>
  Modelled from the spec: \<open>WithUniqueId\<close> (\<open>types/generics\<close> is not among the
  sources). An entity is any record with a unique identifier field; the identifier is a
  \<open>string | number\<close>, as \<open>CrudMessageContext.id\<close> requires. Numbers are the
  integers that JavaScript prints in plain decimal digits. The field is called
  \<open>id'\<close> because \<open>id\<close> is the identity function of HOL. A DTO extending
  \<open>WithUniqueId\<close> is any extension of this record.
\<close>

datatype ident = IdNum int | IdStr string

record WithUniqueId =
  id' :: ident

text \<open>
  An optional parameter \<open>x?: T\<close> that the source tests against both \<open>undefined\<close> and
  \<open>null\<close>.
\<close>

datatype 'a optional = Undefined | Null | Defined 'a

text \<open>
  A JavaScript object used as a request body: its own properties in order, with values
  of an opaque type.
\<close>

type_synonym 'v JsObject = "(string \<times> 'v) list"

definition has_property :: "'v JsObject \<Rightarrow> string \<Rightarrow> bool" where
  "has_property obj k = (k \<in> set (map fst obj))"

subsection \<open>Template literals\<close>

text \<open>
  \<open>`${x}`\<close> converts \<open>x\<close> to a string: a string is itself, a number is written in
  decimal, \<open>undefined\<close> is the text \<open>undefined\<close>.
\<close>

definition digit :: "nat \<Rightarrow> char" where
  "digit n = ''0123456789'' ! n"

function show_nat :: "nat \<Rightarrow> string" where
  "show_nat n = (if n < 10 then [digit n] else show_nat (n div 10) @ [digit (n mod 10)])"
  by pat_completeness auto
termination
  by (relation "measure (\<lambda>n. n)") auto

declare show_nat.simps [simp del]

definition show_int :: "int \<Rightarrow> string" where
  "show_int i = (if i < 0 then ''-'' @ show_nat (nat (- i)) else show_nat (nat i))"

fun to_string :: "ident \<Rightarrow> string" where
  "to_string (IdStr s) = s"
| "to_string (IdNum n) = show_int n"

definition to_string_opt :: "ident option \<Rightarrow> string" where
  "to_string_opt i = (case i of None \<Rightarrow> ''undefined'' | Some x \<Rightarrow> to_string x)"

subsection \<open>Promises, observables, HTTP and logging\<close>

text \<open>
  The value with which a failed request errors. The error channel of an observable is
  untyped, so it may be \<open>undefined\<close> or \<open>null\<close> as well as an object (the HTTP
  client itself raises an \<open>HttpErrorResponse\<close>). Of an object the source reads the
  \<open>message\<close> property only, which may be missing.
\<close>

datatype Thrown = ThrownUndefined | ThrownNull | ThrownObject "string option"

text \<open>
  \<open>(error as Error).message\<close>: reading a property of \<open>undefined\<close> or \<open>null\<close>
  throws a \<open>TypeError\<close>; of an object it gives the property, and a missing one
  (\<open>undefined\<close>) is printed as the text \<open>undefined\<close> by the template literal.
\<close>

datatype Reason = TypeError | Failure Thrown

fun error_message :: "Thrown \<Rightarrow> Reason + string" where
  "error_message ThrownUndefined = Inl TypeError"
| "error_message ThrownNull = Inl TypeError"
| "error_message (ThrownObject None) = Inr ''undefined''"
| "error_message (ThrownObject (Some m)) = Inr m"

text \<open>A settled promise: resolved with a value, or rejected with a reason.\<close>

datatype 'a Promise = Resolved 'a | Rejected Reason

text \<open>
  The first notification of the observable returned by the HTTP client: it either emits
  the response body or errors. The body of a response is \<open>T | null\<close> at run time (an
  empty body is \<open>null\<close>), whatever type parameter the call site gives; \<open>None\<close> is that
  \<open>null\<close>. A body is a JSON value parsed by the client, so \<open>JSON.stringify\<close> gives
  its text and does not throw.
\<close>

datatype 'r Observable = Emits "'r option" | Errors Thrown

datatype HttpMethod = GET | POST | PUT | DELETE

record 'v HttpRequest =
  verb :: HttpMethod
  url :: Url
  body :: "'v JsObject option"

text \<open>
  The four calls of the HTTP client used by the service, as the requests they describe:
  \<open>post(url, body)\<close>, \<open>get(url)\<close>, \<open>put(url, body)\<close> and \<open>delete(url)\<close>.
\<close>

definition http_post :: "Url \<Rightarrow> 'v JsObject \<Rightarrow> 'v HttpRequest" where
  "http_post u b = \<lparr>verb = POST, url = u, body = Some b\<rparr>"

definition http_get :: "Url \<Rightarrow> 'v HttpRequest" where
  "http_get u = \<lparr>verb = GET, url = u, body = None\<rparr>"

definition http_put :: "Url \<Rightarrow> 'v JsObject \<Rightarrow> 'v HttpRequest" where
  "http_put u b = \<lparr>verb = PUT, url = u, body = Some b\<rparr>"

definition http_delete :: "Url \<Rightarrow> 'v HttpRequest" where
  "http_delete u = \<lparr>verb = DELETE, url = u, body = None\<rparr>"

text \<open>
  A log line is a template literal: literal text, and for the payload line the text
  that \<open>JSON.stringify\<close> gives for the response body, which is kept as it stands.
\<close>

datatype 'r piece = Text string | JSON_stringify "'r option"

datatype ('v, 'r) event = Log "'r piece list" | Http "'v HttpRequest"

fun requests :: "('v, 'r) event list \<Rightarrow> 'v HttpRequest list" where
  "requests [] = []"
| "requests (Log m # es) = requests es"
| "requests (Http r # es) = r # requests es"

text \<open>
  The optional application logger. Every call in the source is
  \<open>this.logger?.log?.(message)\<close>: when the logger is absent or has no \<open>log\<close>
  member nothing happens, and the argument is not evaluated. A logger that is present
  records the line and returns, as its declared type \<open>log(message: string): void\<close>
  says.
\<close>

datatype Logger = Logger (has_log: bool)

definition logs :: "Logger option \<Rightarrow> bool" where
  "logs lg = (case lg of None \<Rightarrow> False | Some l \<Rightarrow> has_log l)"

definition logger_log :: "Logger option \<Rightarrow> 'r piece list \<Rightarrow> ('v, 'r) event list" where
  "logger_log lg msg = (if logs lg then [Log msg] else [])"

section \<open>The CRUD consumer pattern\<close>

text \<open>
  \<open>CrudConsumerResponse\<close> with the members the pattern file declares: \<open>status\<close>,
  \<open>message\<close> and \<open>payload\<close> (\<open>P | null\<close>, \<open>None\<close> being \<open>null\<close>); they are
  what a consumer such as the facade reads. The object that \<open>createResponse\<close> builds,
  \<open>{ status, code, message, payload }\<close>, carries the stable \<open>code\<close> as well, so it
  is the extension of that record by \<open>code\<close>.
\<close>

record 'p CrudConsumerResponse =
  status :: string
  message :: ShortText
  payload :: "'p option"

record 'p CrudResponse = "'p CrudConsumerResponse" +
  code :: string

section \<open>The message and code factory\<close>

record CrudMessageContext =
  entity :: "string option"
  ctx_id :: "ident option"

record CrudMetaMessage =
  meta_code :: string
  meta_message :: string

record CrudMetaPair =
  success :: CrudMetaMessage
  error :: CrudMetaMessage

definition entity_or :: "string option \<Rightarrow> string \<Rightarrow> string" where
  "entity_or e d = (case e of None \<Rightarrow> d | Some s \<Rightarrow> s)"

definition CrudMeta_success_create :: "CrudMessageContext \<Rightarrow> CrudMetaMessage" where
  "CrudMeta_success_create c =
     \<lparr>meta_code = ''CRUD.CREATE.SUCCESS'',
      meta_message = ''Successfully created '' @ entity_or (entity c) ''entity''\<rparr>"

definition CrudMeta_success_read :: "CrudMessageContext \<Rightarrow> CrudMetaMessage" where
  "CrudMeta_success_read c =
     \<lparr>meta_code = ''CRUD.READ.SUCCESS'',
      meta_message = ''Successfully read '' @ entity_or (entity c) ''entity''
        @ '' with id: '' @ to_string_opt (ctx_id c)\<rparr>"

definition CrudMeta_success_readAll :: "CrudMessageContext \<Rightarrow> CrudMetaMessage" where
  "CrudMeta_success_readAll c =
     \<lparr>meta_code = ''CRUD.READ_ALL.SUCCESS'',
      meta_message = ''Successfully read '' @ entity_or (entity c) ''entities''\<rparr>"

definition CrudMeta_success_update :: "CrudMessageContext \<Rightarrow> CrudMetaMessage" where
  "CrudMeta_success_update c =
     \<lparr>meta_code = ''CRUD.UPDATE.SUCCESS'',
      meta_message = ''Successfully updated '' @ entity_or (entity c) ''entity''
        @ '' with id: '' @ to_string_opt (ctx_id c)\<rparr>"

definition CrudMeta_success_delete :: "CrudMessageContext \<Rightarrow> CrudMetaMessage" where
  "CrudMeta_success_delete c =
     \<lparr>meta_code = ''CRUD.DELETE.SUCCESS'',
      meta_message = ''Successfully deleted '' @ entity_or (entity c) ''entity''
        @ '' with id: '' @ to_string_opt (ctx_id c)\<rparr>"

definition CrudMeta_error_create :: "CrudMessageContext \<Rightarrow> CrudMetaMessage" where
  "CrudMeta_error_create c =
     \<lparr>meta_code = ''CRUD.CREATE.ERROR'',
      meta_message = ''Error creating '' @ entity_or (entity c) ''entity''\<rparr>"

definition CrudMeta_error_read :: "CrudMessageContext \<Rightarrow> CrudMetaMessage" where
  "CrudMeta_error_read c =
     \<lparr>meta_code = ''CRUD.READ.ERROR'',
      meta_message = ''Error reading '' @ entity_or (entity c) ''entity''
        @ '' with id: '' @ to_string_opt (ctx_id c)\<rparr>"

definition CrudMeta_error_readAll :: "CrudMessageContext \<Rightarrow> CrudMetaMessage" where
  "CrudMeta_error_readAll c =
     \<lparr>meta_code = ''CRUD.READ_ALL.ERROR'',
      meta_message = ''Error reading '' @ entity_or (entity c) ''entities''\<rparr>"

definition CrudMeta_error_update :: "CrudMessageContext \<Rightarrow> CrudMetaMessage" where
  "CrudMeta_error_update c =
     \<lparr>meta_code = ''CRUD.UPDATE.ERROR'',
      meta_message = ''Error updating '' @ entity_or (entity c) ''entity''
        @ '' with id: '' @ to_string_opt (ctx_id c)\<rparr>"

definition CrudMeta_error_delete :: "CrudMessageContext \<Rightarrow> CrudMetaMessage" where
  "CrudMeta_error_delete c =
     \<lparr>meta_code = ''CRUD.DELETE.ERROR'',
      meta_message = ''Error deleting '' @ entity_or (entity c) ''entity''
        @ '' with id: '' @ to_string_opt (ctx_id c)\<rparr>"

section \<open>The abstract CRUD service\<close>

text \<open>
  The fields of a service: its endpoint and entity name, the injected HTTP client (a
  request is answered by the observable's first notification) and the optional logger.
\<close>

record ('v, 'r) CrudService =
  endpoint :: Url
  entityName :: string
  http :: "'v HttpRequest \<Rightarrow> 'r Observable"
  logger :: "Logger option"

definition CrudService_url :: "('v, 'r) CrudService \<Rightarrow> ident optional \<Rightarrow> Url" where
  "CrudService_url svc i =
     (if i = Undefined \<or> i = Null then endpoint svc
      else endpoint svc @ ''/'' @ (case i of Defined x \<Rightarrow> to_string x | _ \<Rightarrow> ''''))"

definition createResponse ::
  "('v, 'r) CrudService \<Rightarrow> string \<Rightarrow> string \<Rightarrow> string \<Rightarrow> 'r option
     \<Rightarrow> 'r CrudResponse \<times> ('v, 'r) event list" where
  "createResponse svc st cd msg pl =
     (\<lparr>status = st, message = msg, payload = pl, code = cd\<rparr>,
      logger_log (logger svc)
        [Text (''[CrudService] Response created with status: '' @ st @ '', code: '' @ cd
                 @ '', message: '' @ msg)])"

text \<open>
  \<open>request\<close> subscribes to the observable (the request is issued then) and awaits
  its first value inside \<open>try\<close>. An emitted value is logged and becomes the payload of
  a success envelope; the argument of that log call, with \<open>JSON.stringify(result)\<close>,
  is evaluated only when a logger with \<open>log\<close> is present, and gives the text of the
  JSON body. A failure value is caught: the \<open>catch\<close> block logs its message and
  returns the error envelope. The argument of that log call reads
  \<open>(error as Error).message\<close>, and is likewise evaluated only when a logger with
  \<open>log\<close> is present; when it throws, inside \<open>catch\<close>, the promise of
  \<open>request\<close> rejects and nothing is logged.
\<close>

definition request ::
  "('v, 'r) CrudService \<Rightarrow> 'v HttpRequest \<Rightarrow> CrudMetaPair
     \<Rightarrow> 'r CrudResponse Promise \<times> ('v, 'r) event list" where
  "request svc req meta =
     (case http svc req of
        Emits result \<Rightarrow>
          (let l = logger_log (logger svc)
                     [Text (''[CrudService] '' @ meta_message (success meta) @ '' - Payload: ''),
                      JSON_stringify result, Text '' }''];
               (r, l') = createResponse svc ''success'' (meta_code (success meta))
                           (meta_message (success meta)) result
           in (Resolved r, Http req # l @ l'))
      | Errors err \<Rightarrow>
          (if logs (logger svc) then
             (case error_message err of
                Inl thrown \<Rightarrow> (Rejected thrown, [Http req])
              | Inr m \<Rightarrow>
                  (let l = [Log [Text (''[CrudService] '' @ meta_message (error meta) @ '' - ''
                                        @ m)]];
                       (r, l') = createResponse svc ''error'' (meta_code (error meta))
                                   (meta_message (error meta)) None
                   in (Resolved r, Http req # l @ l')))
           else
             (let (r, l') = createResponse svc ''error'' (meta_code (error meta))
                              (meta_message (error meta)) None
              in (Resolved r, Http req # l'))))"

definition CrudService_create ::
  "('v, 'r) CrudService \<Rightarrow> 'v JsObject \<Rightarrow> 'r CrudResponse Promise \<times> ('v, 'r) event list" where
  "CrudService_create svc data =
     (let l = logger_log (logger svc) [Text (''[CrudService] Creating '' @ entityName svc)];
          (p, l') = request svc
                      (http_post (CrudService_url svc Undefined) data)
                      \<lparr>success = CrudMeta_success_create
                                   \<lparr>entity = Some (entityName svc), ctx_id = None\<rparr>,
                       error = CrudMeta_error_create
                                 \<lparr>entity = Some (entityName svc), ctx_id = None\<rparr>\<rparr>
      in (p, l @ l'))"

definition CrudService_read ::
  "('v, 'r) CrudService \<Rightarrow> ident optional \<Rightarrow> 'r CrudResponse Promise \<times> ('v, 'r) event list" where
  "CrudService_read svc target =
     (case target of
        Defined t \<Rightarrow>
          (let l = logger_log (logger svc)
                     [Text (''[CrudService] Reading '' @ entityName svc @ '' with id: ''
                              @ to_string t)];
               (p, l') = request svc
                           (http_get (CrudService_url svc (Defined t)))
                           \<lparr>success = CrudMeta_success_read
                                        \<lparr>entity = Some (entityName svc), ctx_id = Some t\<rparr>,
                            error = CrudMeta_error_read
                                      \<lparr>entity = Some (entityName svc), ctx_id = Some t\<rparr>\<rparr>
           in (p, l @ l'))
      | _ \<Rightarrow>
          (let l = logger_log (logger svc)
                     [Text (''[CrudService] Reading all '' @ entityName svc)];
               (p, l') = request svc
                           (http_get (CrudService_url svc Undefined))
                           \<lparr>success = CrudMeta_success_readAll
                                        \<lparr>entity = Some (entityName svc), ctx_id = None\<rparr>,
                            error = CrudMeta_error_readAll
                                      \<lparr>entity = Some (entityName svc), ctx_id = None\<rparr>\<rparr>
           in (p, l @ l')))"

definition CrudService_update ::
  "('v, 'r) CrudService \<Rightarrow> 'a WithUniqueId_scheme \<Rightarrow> 'v JsObject
     \<Rightarrow> 'r CrudResponse Promise \<times> ('v, 'r) event list" where
  "CrudService_update svc target data =
     (let l = logger_log (logger svc)
                [Text (''[CrudService] Updating '' @ entityName svc @ '' with id: ''
                         @ to_string (id' target))];
          (p, l') = request svc
                      (http_put (CrudService_url svc (Defined (id' target))) data)
                      \<lparr>success = CrudMeta_success_update
                                   \<lparr>entity = Some (entityName svc), ctx_id = Some (id' target)\<rparr>,
                       error = CrudMeta_error_update
                                 \<lparr>entity = Some (entityName svc), ctx_id = Some (id' target)\<rparr>\<rparr>
      in (p, l @ l'))"

definition CrudService_delete ::
  "('v, 'r) CrudService \<Rightarrow> 'a WithUniqueId_scheme
     \<Rightarrow> 'r CrudResponse Promise \<times> ('v, 'r) event list" where
  "CrudService_delete svc target =
     (let l = logger_log (logger svc)
                [Text (''[CrudService] Deleting '' @ entityName svc @ '' with id: ''
                         @ to_string (id' target))];
          (p, l') = request svc
                      (http_delete (CrudService_url svc (Defined (id' target))))
                      \<lparr>success = CrudMeta_success_delete
                                   \<lparr>entity = Some (entityName svc), ctx_id = Some (id' target)\<rparr>,
                       error = CrudMeta_error_delete
                                 \<lparr>entity = Some (entityName svc), ctx_id = Some (id' target)\<rparr>\<rparr>
      in (p, l @ l'))"

section \<open>The product facade\<close>

text \<open>
  \<open>ProductMutation\<close> is the tagged union of the source; \<open>mutation_type\<close> is its
  \<open>type\<close> tag.
\<close>

datatype 'd ProductMutation =
  READ_ALL_PRODUCT
| ADD_PRODUCT 'd
| REMOVE_PRODUCT 'd
| UPDATE_PRODUCT 'd

fun mutation_type :: "'d ProductMutation \<Rightarrow> string" where
  "mutation_type READ_ALL_PRODUCT = ''READ_ALL_PRODUCT''"
| "mutation_type (ADD_PRODUCT p) = ''ADD_PRODUCT''"
| "mutation_type (REMOVE_PRODUCT p) = ''REMOVE_PRODUCT''"
| "mutation_type (UPDATE_PRODUCT p) = ''UPDATE_PRODUCT''"

text \<open>
  \<open>ProductService\<close> (\<open>core/services/product.service\<close>) is not among the
  sources, so the facade takes it as a parameter: the injected CRUD consumer of product
  DTOs, with the two members the facade calls, \<open>read()\<close> and \<open>delete(target)\<close>,
  typed as the \<open>CrudConsumer\<close> interface declares them. Each is a promise of an
  envelope, of which the facade reads declared members only.
\<close>

record ('d, 'z) ProductService =
  read :: "('d list, 'z) CrudConsumerResponse_scheme Promise"
  delete :: "'d \<Rightarrow> ('d, 'z) CrudConsumerResponse_scheme Promise"

text \<open>
  Modelled from the spec: \<open>ProductDTO\<close> (\<open>core/dto/product.dto\<close> is not among the
  sources), the entity \<open>{id, name}\<close> of the spec's example. The facade itself is
  defined for every entity type with an identifier.
\<close>

record ProductDTO = WithUniqueId +
  name :: string

text \<open>The facade holds the signal \<open>data\<close>, initially the empty list.\<close>

record 'd ProductFacade =
  data :: "'d list"

definition ProductFacade_init :: "'d ProductFacade" where
  "ProductFacade_init = \<lparr>data = []\<rparr>"

datatype 'd facade_event = CallRead | CallDelete 'd | ConsoleWarn string

text \<open>
  \<open>compute\<close> returns the settled promise, the calls and warnings it made, and the
  facade afterwards. An awaited promise that rejects rejects \<open>compute\<close> at that point.
\<close>

fun compute ::
  "('a WithUniqueId_scheme, 'z) ProductService \<Rightarrow> 'a WithUniqueId_scheme ProductMutation
     \<Rightarrow> 'a WithUniqueId_scheme ProductFacade
     \<Rightarrow> unit Promise \<times> 'a WithUniqueId_scheme facade_event list
          \<times> 'a WithUniqueId_scheme ProductFacade" where
  "compute productService READ_ALL_PRODUCT this =
     (case read productService of
        Rejected e \<Rightarrow> (Rejected e, [CallRead], this)
      | Resolved responseRead \<Rightarrow>
          (Resolved (), [CallRead],
           this\<lparr>data := (case payload responseRead of None \<Rightarrow> [] | Some ps \<Rightarrow> ps)\<rparr>))"
| "compute productService (REMOVE_PRODUCT target) this =
     (case delete productService target of
        Rejected e \<Rightarrow> (Rejected e, [CallDelete target], this)
      | Resolved responseDelete \<Rightarrow>
          (Resolved (), [CallDelete target],
           if status responseDelete = ''success''
           then this\<lparr>data := filter (\<lambda>p. id' p \<noteq> id' target) (data this)\<rparr>
           else this))"
| "compute productService mutation this =
     (Resolved (), [ConsoleWarn (''Unknown mutation type: '' @ mutation_type mutation)], this)"

section \<open>Properties of promises and envelopes\<close>

text \<open>
  A promise that resolved to an error envelope with the given code: status
  \<open>error\<close> and a \<open>null\<close> payload.
\<close>

definition resolves_to_error :: "'r CrudResponse Promise \<Rightarrow> string \<Rightarrow> bool" where
  "resolves_to_error p c =
     (case p of
        Resolved r \<Rightarrow> status r = ''error'' \<and> payload r = None \<and> code r = c
      | Rejected e \<Rightarrow> False)"

text \<open>A promise that resolved to a success envelope with the given code and payload.\<close>

definition resolves_to_success ::
  "'r CrudResponse Promise \<Rightarrow> string \<Rightarrow> 'r option \<Rightarrow> bool" where
  "resolves_to_success p c v =
     (case p of
        Resolved r \<Rightarrow> status r = ''success'' \<and> payload r = v \<and> code r = c
      | Rejected e \<Rightarrow> False)"

text \<open>
  The envelope to which a promise resolved, if it resolved to one, has a \<open>null\<close>
  payload unless its status is \<open>success\<close>.
\<close>

definition payload_implies_success :: "'r CrudResponse Promise \<Rightarrow> bool" where
  "payload_implies_success p =
     (case p of
        Resolved r \<Rightarrow> payload r = None \<or> status r = ''success''
      | Rejected e \<Rightarrow> True)"

text \<open>
  An envelope of an operation with the given success and error codes: its status is
  \<open>success\<close> with the success code, or \<open>error\<close> with the error code.
\<close>

definition is_envelope :: "string \<Rightarrow> string \<Rightarrow> 'r CrudResponse \<Rightarrow> bool" where
  "is_envelope sc ec r =
     ((status r = ''success'' \<and> code r = sc) \<or> (status r = ''error'' \<and> code r = ec))"

text \<open>Whether the body of a request has an \<open>id\<close> property.\<close>

definition body_has_id :: "'v HttpRequest \<Rightarrow> bool" where
  "body_has_id req = (case body req of None \<Rightarrow> False | Some b \<Rightarrow> has_property b ''id'')"

section \<open>A product service and its backends\<close>

text \<open>
  The concrete instances below use a service of products at \<open>/api/products\<close>. A
  response body is an entity or a collection of entities (\<open>DTO | DTO[]\<close>).
\<close>

datatype 'd body = Entity 'd | Collection "'d list"

definition product_0 :: ProductDTO where
  "product_0 = \<lparr>id' = IdNum 0, name = ''Z''\<rparr>"

definition product_A :: ProductDTO where
  "product_A = \<lparr>id' = IdNum 1, name = ''A''\<rparr>"

definition product_B :: ProductDTO where
  "product_B = \<lparr>id' = IdNum 2, name = ''B''\<rparr>"

text \<open>A backend that knows the products 0 and 1 and answers 404 elsewhere.\<close>

definition rest_http :: "string HttpRequest \<Rightarrow> ProductDTO body Observable" where
  "rest_http req =
     (if url req = ''/api/products'' then
        (if verb req = GET then Emits (Some (Collection [product_A, product_B]))
         else Emits (Some (Entity product_A)))
      else if url req = ''/api/products/0'' then Emits (Some (Entity product_0))
      else if url req = ''/api/products/1'' then Emits (Some (Entity product_A))
      else Errors (ThrownObject (Some ''Http failure response: 404 Not Found'')))"

text \<open>
  A backend that cannot be reached, one that answers every request with an empty body,
  and a client whose observable errors with \<open>undefined\<close> (as an interceptor with
  \<open>throwError(() => undefined)\<close> makes it).
\<close>

definition offline_http :: "string HttpRequest \<Rightarrow> ProductDTO body Observable" where
  "offline_http req = Errors (ThrownObject (Some ''Http failure response: 0 Unknown Error''))"

definition empty_body_http :: "string HttpRequest \<Rightarrow> ProductDTO body Observable" where
  "empty_body_http req = Emits None"

definition undefined_failure_http :: "string HttpRequest \<Rightarrow> ProductDTO body Observable" where
  "undefined_failure_http req = Errors ThrownUndefined"

definition product_service ::
  "(string HttpRequest \<Rightarrow> ProductDTO body Observable) \<Rightarrow> Logger option
     \<Rightarrow> (string, ProductDTO body) CrudService" where
  "product_service h lg =
     \<lparr>endpoint = ''/api/products'', entityName = ''product'', http = h, logger = lg\<rparr>"

text \<open>Two product services as the facade sees them: one that succeeds, one that fails.\<close>

definition echo_delete :: "ProductDTO \<Rightarrow> ProductDTO CrudConsumerResponse Promise" where
  "echo_delete p =
     Resolved \<lparr>status = ''success'', message = ''Successfully deleted product'',
               payload = Some p\<rparr>"

definition failing_delete :: "ProductDTO \<Rightarrow> ProductDTO CrudConsumerResponse Promise" where
  "failing_delete p =
     Resolved \<lparr>status = ''error'', message = ''Error deleting product'', payload = None\<rparr>"

definition online_products :: "(ProductDTO, unit) ProductService" where
  "online_products =
     \<lparr>read = Resolved \<lparr>status = ''success'', message = ''Successfully read product'',
                        payload = Some [product_A, product_B]\<rparr>,
      delete = echo_delete\<rparr>"

definition offline_products :: "(ProductDTO, unit) ProductService" where
  "offline_products =
     \<lparr>read = Resolved \<lparr>status = ''error'', message = ''Error reading product'',
                        payload = None\<rparr>,
      delete = failing_delete\<rparr>"

section \<open>Lemmas about the service\<close>

lemma requests_append: "requests (xs @ ys) = requests xs @ requests ys"
  by (induction xs rule: requests.induct) simp_all

lemma requests_logger_log: "requests (logger_log lg m) = []"
  by (simp add: logger_log_def)

lemma url_simps:
  "CrudService_url svc Undefined = endpoint svc"
  "CrudService_url svc Null = endpoint svc"
  "CrudService_url svc (Defined t) = endpoint svc @ ''/'' @ to_string t"
  by (simp_all add: CrudService_url_def)

lemma url_logger: "CrudService_url (svc\<lparr>logger := lg\<rparr>) i = CrudService_url svc i"
  by (simp add: CrudService_url_def)

lemma show_int_0: "show_int 0 = ''0''"
  by (simp add: show_int_def show_nat.simps digit_def)

lemma show_int_1: "show_int 1 = ''1''"
  by (simp add: show_int_def show_nat.simps digit_def)

lemma request_Emits:
  "http svc req = Emits v \<Longrightarrow>
   fst (request svc req meta) =
     Resolved \<lparr>status = ''success'', message = meta_message (success meta), payload = v,
               code = meta_code (success meta)\<rparr>"
  by (simp add: request_def createResponse_def Let_def)

text \<open>
  A failure value is caught and becomes the error envelope when no logger logs, or when
  its \<open>message\<close> can be read.
\<close>

lemma request_Errors:
  "http svc req = Errors e \<Longrightarrow>
   \<not> logs (logger svc) \<or> (e \<noteq> ThrownUndefined \<and> e \<noteq> ThrownNull) \<Longrightarrow>
   fst (request svc req meta) =
     Resolved \<lparr>status = ''error'', message = meta_message (error meta), payload = None,
               code = meta_code (error meta)\<rparr>"
  by (cases e rule: error_message.cases)
     (auto simp add: request_def createResponse_def Let_def)

text \<open>
  With a logger that logs, a failure value \<open>undefined\<close> or \<open>null\<close> makes the
  \<open>catch\<close> block throw, and the promise rejects.
\<close>

lemma request_Errors_rejects:
  "http svc req = Errors e \<Longrightarrow> logs (logger svc) \<Longrightarrow>
   e = ThrownUndefined \<or> e = ThrownNull \<Longrightarrow>
   fst (request svc req meta) = Rejected TypeError"
  by (auto simp add: request_def)

lemma request_requests: "requests (snd (request svc req meta)) = [req]"
proof (cases "http svc req")
  case (Emits v)
  then show ?thesis
    by (simp add: request_def createResponse_def Let_def requests_append requests_logger_log)
next
  case (Errors e)
  then show ?thesis
    by (cases e rule: error_message.cases)
       (simp_all add: request_def createResponse_def Let_def requests_append
        requests_logger_log)
qed

lemma request_payload_implies_success:
  "payload_implies_success (fst (request svc req meta))"
proof (cases "http svc req")
  case (Emits v)
  then show ?thesis
    by (simp add: request_def createResponse_def Let_def payload_implies_success_def)
next
  case (Errors e)
  then show ?thesis
    by (cases e rule: error_message.cases)
       (simp_all add: request_def createResponse_def Let_def payload_implies_success_def)
qed


lemmas op_defs = CrudService_create_def CrudService_read_def CrudService_update_def
  CrudService_delete_def

lemmas meta_defs = CrudMeta_success_create_def CrudMeta_success_read_def
  CrudMeta_success_readAll_def CrudMeta_success_update_def CrudMeta_success_delete_def
  CrudMeta_error_create_def CrudMeta_error_read_def CrudMeta_error_readAll_def
  CrudMeta_error_update_def CrudMeta_error_delete_def

lemma create_requests:
  "requests (snd (CrudService_create svc d)) = [http_post (endpoint svc) d]"
  by (simp add: op_defs url_simps Let_def split_beta requests_append requests_logger_log
      request_requests)

lemma read_all_requests:
  "target = Undefined \<or> target = Null \<Longrightarrow>
   requests (snd (CrudService_read svc target)) = [http_get (endpoint svc)]"
  by (auto simp add: op_defs url_simps Let_def split_beta requests_append requests_logger_log
      request_requests)

lemma read_one_requests:
  "requests (snd (CrudService_read svc (Defined t))) =
     [http_get (endpoint svc @ ''/'' @ to_string t)]"
  by (simp add: op_defs url_simps Let_def split_beta requests_append requests_logger_log
      request_requests)

lemma update_requests:
  "requests (snd (CrudService_update svc target d)) =
     [http_put (endpoint svc @ ''/'' @ to_string (id' target)) d]"
  by (simp add: op_defs url_simps Let_def split_beta requests_append requests_logger_log
      request_requests)

lemma delete_requests:
  "requests (snd (CrudService_delete svc target)) =
     [http_delete (endpoint svc @ ''/'' @ to_string (id' target))]"
  by (simp add: op_defs url_simps Let_def split_beta requests_append requests_logger_log
      request_requests)

lemma success_envelopes:
  "http svc (http_post (endpoint svc) d) = Emits v \<Longrightarrow>
     resolves_to_success (fst (CrudService_create svc d)) ''CRUD.CREATE.SUCCESS'' v"
  "http svc (http_get (endpoint svc)) = Emits v \<Longrightarrow>
     resolves_to_success (fst (CrudService_read svc Undefined)) ''CRUD.READ_ALL.SUCCESS'' v"
  "http svc (http_get (endpoint svc)) = Emits v \<Longrightarrow>
     resolves_to_success (fst (CrudService_read svc Null)) ''CRUD.READ_ALL.SUCCESS'' v"
  "http svc (http_get (endpoint svc @ ''/'' @ to_string t)) = Emits v \<Longrightarrow>
     resolves_to_success (fst (CrudService_read svc (Defined t))) ''CRUD.READ.SUCCESS'' v"
  "http svc (http_put (endpoint svc @ ''/'' @ to_string (id' target)) d) = Emits v \<Longrightarrow>
     resolves_to_success (fst (CrudService_update svc target d)) ''CRUD.UPDATE.SUCCESS'' v"
  "http svc (http_delete (endpoint svc @ ''/'' @ to_string (id' target))) = Emits v \<Longrightarrow>
     resolves_to_success (fst (CrudService_delete svc target)) ''CRUD.DELETE.SUCCESS'' v"
  by (simp_all add: op_defs url_simps Let_def split_beta request_Emits
      resolves_to_success_def meta_defs)

text \<open>
  What holds of the failure path for every operation: the error envelope, under the
  condition of \<open>request_Errors\<close>.
\<close>

lemma error_envelopes:
  assumes "\<not> logs (logger svc) \<or> (e \<noteq> ThrownUndefined \<and> e \<noteq> ThrownNull)"
  shows
    "http svc (http_post (endpoint svc) d) = Errors e \<Longrightarrow>
       resolves_to_error (fst (CrudService_create svc d)) ''CRUD.CREATE.ERROR''"
    "http svc (http_get (endpoint svc)) = Errors e \<Longrightarrow>
       resolves_to_error (fst (CrudService_read svc Undefined)) ''CRUD.READ_ALL.ERROR''"
    "http svc (http_get (endpoint svc)) = Errors e \<Longrightarrow>
       resolves_to_error (fst (CrudService_read svc Null)) ''CRUD.READ_ALL.ERROR''"
    "http svc (http_get (endpoint svc @ ''/'' @ to_string t)) = Errors e \<Longrightarrow>
       resolves_to_error (fst (CrudService_read svc (Defined t))) ''CRUD.READ.ERROR''"
    "http svc (http_put (endpoint svc @ ''/'' @ to_string (id' target)) d) = Errors e \<Longrightarrow>
       resolves_to_error (fst (CrudService_update svc target d)) ''CRUD.UPDATE.ERROR''"
    "http svc (http_delete (endpoint svc @ ''/'' @ to_string (id' target))) = Errors e \<Longrightarrow>
       resolves_to_error (fst (CrudService_delete svc target)) ''CRUD.DELETE.ERROR''"
  using assms
  by (simp_all add: op_defs url_simps Let_def split_beta request_Errors
      resolves_to_error_def meta_defs)

text \<open>The definitions that evaluate a call of the product service at a concrete input.\<close>

lemmas eval_defs = op_defs meta_defs url_simps request_def createResponse_def Let_def
  split_beta logger_log_def logs_def entity_or_def to_string_opt_def show_int_0 show_int_1
  product_service_def rest_http_def offline_http_def empty_body_http_def
  undefined_failure_http_def product_0_def product_A_def product_B_def
  http_post_def http_get_def http_put_def http_delete_def
  resolves_to_error_def resolves_to_success_def payload_implies_success_def
  is_envelope_def

lemmas facade_defs = online_products_def offline_products_def echo_delete_def
  failing_delete_def product_A_def product_B_def ProductFacade_init_def

section \<open>Failure semantics of the service\<close>

text \<open>
  Claim C1 says that for every CRUD operation a failing HTTP request makes the returned
  promise resolve, never reject, to an envelope with status \<open>error\<close>, a \<open>null\<close>
  payload and the error code of the operation. With a logger that logs and a request
  that errors with \<open>undefined\<close>, the \<open>catch\<close> block of \<open>request\<close> throws while it
  reads the message of the failure value for its log line: the promise of \<open>delete\<close>,
  and of \<open>create\<close> alike, rejects with a \<open>TypeError\<close> and no envelope is returned.
\<close>

theorem undefined_failure_rejects_with_logger:
  "undefined_failure_http (http_delete ''/api/products/1'') = Errors ThrownUndefined
   \<and> fst (CrudService_delete (product_service undefined_failure_http (Some (Logger True)))
             product_A) = Rejected TypeError
   \<and> snd (CrudService_delete (product_service undefined_failure_http (Some (Logger True)))
             product_A) =
       [Log [Text ''[CrudService] Deleting product with id: 1''],
        Http \<lparr>verb = DELETE, url = ''/api/products/1'', body = None\<rparr>]
   \<and> fst (CrudService_create (product_service undefined_failure_http (Some (Logger True)))
             [(''name'', ''A'')]) = Rejected TypeError"
  by (simp add: eval_defs)

section \<open>Success semantics of the service\<close>

text \<open>
  Claim C2, as amended. For each of the five CRUD operations: when the HTTP request that
  the operation issues emits a body, the promise resolves to an envelope with status
  \<open>success\<close>, the success code of the operation and that body as payload, so the
  payload of a success envelope is \<open>null\<close> exactly when the body is. In every envelope
  a payload that is not \<open>null\<close> implies status \<open>success\<close>.
\<close>

theorem success_payload_is_response_body:
  "(http svc (http_post (endpoint svc) d) = Emits v \<longrightarrow>
      resolves_to_success (fst (CrudService_create svc d)) ''CRUD.CREATE.SUCCESS'' v)
   \<and> (http svc (http_get (endpoint svc)) = Emits v \<longrightarrow>
      resolves_to_success (fst (CrudService_read svc Undefined)) ''CRUD.READ_ALL.SUCCESS'' v
      \<and> resolves_to_success (fst (CrudService_read svc Null)) ''CRUD.READ_ALL.SUCCESS'' v)
   \<and> (http svc (http_get (endpoint svc @ ''/'' @ to_string t)) = Emits v \<longrightarrow>
      resolves_to_success (fst (CrudService_read svc (Defined t))) ''CRUD.READ.SUCCESS'' v)
   \<and> (http svc (http_put (endpoint svc @ ''/'' @ to_string (id' target)) d) = Emits v \<longrightarrow>
      resolves_to_success (fst (CrudService_update svc target d)) ''CRUD.UPDATE.SUCCESS'' v)
   \<and> (http svc (http_delete (endpoint svc @ ''/'' @ to_string (id' target))) = Emits v \<longrightarrow>
      resolves_to_success (fst (CrudService_delete svc target)) ''CRUD.DELETE.SUCCESS'' v)
   \<and> payload_implies_success (fst (CrudService_create svc d))
   \<and> payload_implies_success (fst (CrudService_read svc opt))
   \<and> payload_implies_success (fst (CrudService_update svc target d))
   \<and> payload_implies_success (fst (CrudService_delete svc target))"
proof -
  have b: "payload_implies_success (fst (CrudService_create svc d))"
    "payload_implies_success (fst (CrudService_update svc target d))"
    "payload_implies_success (fst (CrudService_delete svc target))"
    by (simp_all add: op_defs Let_def split_beta request_payload_implies_success)
  have c: "payload_implies_success (fst (CrudService_read svc opt))"
    by (cases opt) (simp_all add: op_defs Let_def split_beta request_payload_implies_success)
  from b c success_envelopes [of svc] show ?thesis by blast
qed

theorem success_payload_is_response_body_witness:
  "rest_http (http_put ''/api/products/1'' [(''name'', ''A'')]) = Emits (Some (Entity product_A))
   \<and> resolves_to_success
        (fst (CrudService_update (product_service rest_http None) product_A [(''name'', ''A'')]))
        ''CRUD.UPDATE.SUCCESS'' (Some (Entity product_A))
   \<and> resolves_to_success
        (fst (CrudService_read (product_service rest_http None) (Defined (IdNum 1))))
        ''CRUD.READ.SUCCESS'' (Some (Entity product_A))
   \<and> resolves_to_success
        (fst (CrudService_delete (product_service rest_http None) product_A))
        ''CRUD.DELETE.SUCCESS'' (Some (Entity product_A))
   \<and> resolves_to_success
        (fst (CrudService_create (product_service rest_http None) [(''name'', ''A'')]))
        ''CRUD.CREATE.SUCCESS'' (Some (Entity product_A))
   \<and> payload_implies_success
        (fst (CrudService_read (product_service offline_http None) Undefined))"
  using success_payload_is_response_body
    [of "product_service rest_http None" "[(''name'', ''A'')]" "Some (Entity product_A)"
      "IdNum 1" product_A Undefined]
    success_payload_is_response_body
    [of "product_service offline_http None" "[(''name'', ''A'')]" "Some (Entity product_A)"
      "IdNum 1" product_A Undefined]
  by (simp add: product_service_def rest_http_def http_put_def http_post_def http_get_def
      http_delete_def product_A_def show_int_1)

text \<open>
  Claim C2 as stated fails: a backend that answers a delete with an empty body yields an
  envelope with status \<open>success\<close> and a \<open>null\<close> payload.
\<close>

theorem success_with_null_payload:
  "empty_body_http (http_delete ''/api/products/1'') = Emits None
   \<and> fst (CrudService_delete (product_service empty_body_http None) product_A) =
       Resolved \<lparr>status = ''success'', message = ''Successfully deleted product with id: 1'',
                 payload = None, code = ''CRUD.DELETE.SUCCESS''\<rparr>"
  by (simp add: eval_defs)

section \<open>Dispatch of read\<close>

text \<open>
  Claim C3. \<open>read\<close> called with no argument, with \<open>undefined\<close> or with \<open>null\<close>
  issues exactly one request, a GET to the base endpoint, and on success resolves to the
  read-all envelope carrying the body of that collection request. Called with any
  defined identifier, the numeric zero and the empty string included, it issues exactly
  one request, a GET to \<open>endpoint/id\<close>, and on success resolves to the single-read
  envelope carrying the body of that request.
\<close>

theorem read_dispatches_on_defined_target:
  "((target = Undefined \<or> target = Null) \<longrightarrow>
      requests (snd (CrudService_read svc target)) = [http_get (endpoint svc)]
      \<and> (http svc (http_get (endpoint svc)) = Emits v \<longrightarrow>
           resolves_to_success (fst (CrudService_read svc target)) ''CRUD.READ_ALL.SUCCESS'' v))
   \<and> requests (snd (CrudService_read svc (Defined t))) =
        [http_get (endpoint svc @ ''/'' @ to_string t)]
   \<and> (http svc (http_get (endpoint svc @ ''/'' @ to_string t)) = Emits w \<longrightarrow>
        resolves_to_success (fst (CrudService_read svc (Defined t))) ''CRUD.READ.SUCCESS'' w)"
  using read_all_requests [of target svc] read_one_requests [of svc t]
    success_envelopes(2,3) [of svc v] success_envelopes(4) [of svc t w]
  by blast

theorem read_dispatches_on_defined_target_witness:
  "requests (snd (CrudService_read (product_service rest_http None) Undefined)) =
     [http_get ''/api/products'']
   \<and> resolves_to_success (fst (CrudService_read (product_service rest_http None) Undefined))
        ''CRUD.READ_ALL.SUCCESS'' (Some (Collection [product_A, product_B]))
   \<and> requests (snd (CrudService_read (product_service rest_http None) Null)) =
        [http_get ''/api/products'']
   \<and> requests (snd (CrudService_read (product_service rest_http None) (Defined (IdNum 0)))) =
        [http_get ''/api/products/0'']
   \<and> resolves_to_success
        (fst (CrudService_read (product_service rest_http None) (Defined (IdNum 0))))
        ''CRUD.READ.SUCCESS'' (Some (Entity product_0))
   \<and> requests (snd (CrudService_read (product_service rest_http None) (Defined (IdStr [])))) =
        [http_get ''/api/products/'']"
  using read_dispatches_on_defined_target
    [of Undefined "product_service rest_http None"
      "Some (Collection [product_A, product_B])" "IdNum 0" "Some (Entity product_0)"]
    read_dispatches_on_defined_target
    [of Null "product_service rest_http None"
      "Some (Collection [product_A, product_B])" "IdStr []" None]
  by (simp add: product_service_def rest_http_def http_get_def show_int_0)

section \<open>The body of an update\<close>

text \<open>
  Claim C5, as amended. \<open>update\<close> issues exactly one request, a PUT to
  \<open>endpoint/target.id\<close> whose body is the \<open>data\<close> argument as it was passed: the
  body has an \<open>id\<close> property exactly when \<open>data\<close> has one. The identifier of the
  target goes into the URL, never into the body.
\<close>

theorem update_sends_data_unchanged:
  "requests (snd (CrudService_update svc target d)) =
     [\<lparr>verb = PUT, url = endpoint svc @ ''/'' @ to_string (id' target), body = Some d\<rparr>]
   \<and> map body_has_id (requests (snd (CrudService_update svc target d))) =
        [has_property d ''id'']"
  by (simp add: update_requests http_put_def body_has_id_def)

theorem update_sends_data_unchanged_witness:
  "requests (snd (CrudService_update (product_service rest_http None) product_A
                    [(''name'', ''B'')])) =
     [\<lparr>verb = PUT, url = ''/api/products/1'', body = Some [(''name'', ''B'')]\<rparr>]
   \<and> map body_has_id
        (requests (snd (CrudService_update (product_service rest_http None) product_A
                          [(''name'', ''B'')]))) = [False]"
  using update_sends_data_unchanged
    [of "product_service rest_http None" product_A "[(''name'', ''B'')]"]
  by (simp add: product_service_def product_A_def show_int_1 has_property_def body_has_id_def)

text \<open>
  Claim C5 as stated fails: a \<open>data\<close> object that carries an \<open>id\<close> property is sent
  with it.
\<close>

theorem update_body_keeps_id_of_data:
  "requests (snd (CrudService_update (product_service rest_http None) product_A
                    [(''id'', ''7''), (''name'', ''B'')])) =
     [\<lparr>verb = PUT, url = ''/api/products/1'',
       body = Some [(''id'', ''7''), (''name'', ''B'')]\<rparr>]
   \<and> has_property [(''id'', ''7''), (''name'', ''B'')] ''id''"
  by (simp add: update_requests product_service_def product_A_def show_int_1 http_put_def
      has_property_def)

section \<open>The shape of an envelope\<close>



section \<open>Logging\<close>

text \<open>
  Short of the failure values whose message cannot be read, the envelope does not
  depend on the logger.
\<close>

lemma request_logger_irrelevant:
  "http svc req \<noteq> Errors ThrownUndefined \<Longrightarrow> http svc req \<noteq> Errors ThrownNull \<Longrightarrow>
   fst (request (svc\<lparr>logger := lg\<rparr>) req meta) = fst (request (svc\<lparr>logger := None\<rparr>) req meta)"
proof (cases "http svc req")
  case (Emits v)
  then show ?thesis by (simp add: request_def createResponse_def Let_def)
next
  case (Errors e)
  assume "http svc req \<noteq> Errors ThrownUndefined" "http svc req \<noteq> Errors ThrownNull"
  with Errors show ?thesis
    by (cases e rule: error_message.cases)
       (simp_all add: request_def createResponse_def Let_def logs_def)
qed

text \<open>
  Claim C9 says that two runs of the service that differ only in whether a logger is
  configured resolve to identical envelopes. When the request errors with
  \<open>undefined\<close>, \<open>read()\<close> with a logger rejects with a \<open>TypeError\<close>, thrown while
  the \<open>catch\<close> block evaluates the argument of its log call, and \<open>read()\<close> without
  a logger resolves to the error envelope.
\<close>

theorem logger_presence_decides_outcome:
  "fst (CrudService_read (product_service undefined_failure_http (Some (Logger True)))
          Undefined) = Rejected TypeError
   \<and> fst (CrudService_read (product_service undefined_failure_http None) Undefined) =
       Resolved \<lparr>status = ''error'', message = ''Error reading product'', payload = None,
                 code = ''CRUD.READ_ALL.ERROR''\<rparr>"
  by (simp add: eval_defs)

section \<open>The product facade\<close>

text \<open>
  Claim C4, as amended. \<open>REMOVE_PRODUCT\<close> updates \<open>data\<close> only when the envelope
  of \<open>delete\<close> has status \<open>success\<close>; with any other status the facade is as it was
  before. \<open>READ_ALL_PRODUCT\<close> does not consult the status: it replaces \<open>data\<close> by
  the payload of the envelope of \<open>read\<close>, or by the empty list when that payload is
  \<open>null\<close>, so an envelope without a payload leaves \<open>data\<close> empty.
\<close>

theorem compute_updates_by_mutation:
  "(delete svc t = Resolved r \<longrightarrow> status r \<noteq> ''success'' \<longrightarrow>
      snd (snd (compute svc (REMOVE_PRODUCT t) this)) = this)
   \<and> (delete svc t = Resolved r \<longrightarrow> status r = ''success'' \<longrightarrow>
      snd (snd (compute svc (REMOVE_PRODUCT t) this)) =
        this\<lparr>data := filter (\<lambda>p. id' p \<noteq> id' t) (data this)\<rparr>)
   \<and> (read svc = Resolved q \<longrightarrow>
      snd (snd (compute svc READ_ALL_PRODUCT this)) =
        this\<lparr>data := (case payload q of None \<Rightarrow> [] | Some ps \<Rightarrow> ps)\<rparr>)
   \<and> (read svc = Resolved q \<longrightarrow> payload q = None \<longrightarrow>
      data (snd (snd (compute svc READ_ALL_PRODUCT this))) = [])"
  by simp

theorem compute_updates_by_mutation_witness:
  "delete offline_products product_A =
     Resolved \<lparr>status = ''error'', message = ''Error deleting product'', payload = None\<rparr>
   \<and> snd (snd (compute offline_products (REMOVE_PRODUCT product_A)
                  \<lparr>data = [product_A, product_B]\<rparr>)) = \<lparr>data = [product_A, product_B]\<rparr>
   \<and> snd (snd (compute online_products (REMOVE_PRODUCT product_A)
                  \<lparr>data = [product_A, product_B]\<rparr>)) = \<lparr>data = [product_B]\<rparr>
   \<and> snd (snd (compute online_products READ_ALL_PRODUCT \<lparr>data = []\<rparr>)) =
        \<lparr>data = [product_A, product_B]\<rparr>
   \<and> data (snd (snd (compute offline_products READ_ALL_PRODUCT \<lparr>data = [product_A]\<rparr>))) = []"
  using compute_updates_by_mutation
    [of offline_products product_A
      "\<lparr>status = ''error'', message = ''Error deleting product'', payload = None\<rparr>"
      "\<lparr>data = [product_A, product_B]\<rparr>"
      "\<lparr>status = ''error'', message = ''Error reading product'', payload = None\<rparr>"]
    compute_updates_by_mutation
    [of online_products product_A
      "\<lparr>status = ''success'', message = ''Successfully deleted product'',
        payload = Some product_A\<rparr>"
      "\<lparr>data = [product_A, product_B]\<rparr>"
      "\<lparr>status = ''success'', message = ''Successfully read product'',
        payload = Some [product_A, product_B]\<rparr>"]
  by (simp add: facade_defs)

text \<open>
  Claim C4 as stated fails: with an error envelope from \<open>read\<close>,
  \<open>READ_ALL_PRODUCT\<close> turns a facade holding one product into the empty list.
\<close>

theorem read_all_error_resets_data:
  "read offline_products =
     Resolved \<lparr>status = ''error'', message = ''Error reading product'', payload = None\<rparr>
   \<and> compute offline_products READ_ALL_PRODUCT \<lparr>data = [product_A]\<rparr> =
       (Resolved (), [CallRead], \<lparr>data = []\<rparr>)"
  by (simp add: offline_products_def)

text \<open>
  Claim C7. For every facade state and every entity \<open>e\<close>: when \<open>delete(e)\<close>
  resolves to an envelope with status \<open>success\<close>, the mutation \<open>REMOVE_PRODUCT\<close>
  with payload \<open>e\<close> leaves no element in \<open>data\<close> whose identifier equals that of
  \<open>e\<close>.
\<close>

theorem remove_product_removes_id:
  "delete svc e = Resolved r \<Longrightarrow> status r = ''success'' \<Longrightarrow>
   \<forall>p \<in> set (data (snd (snd (compute svc (REMOVE_PRODUCT e) this)))). id' p \<noteq> id' e"
  by simp

theorem remove_product_removes_id_witness:
  "delete online_products product_A =
     Resolved \<lparr>status = ''success'', message = ''Successfully deleted product'',
               payload = Some product_A\<rparr>
   \<and> data (snd (snd (compute online_products (REMOVE_PRODUCT product_A)
                        \<lparr>data = [product_A, product_B, product_A]\<rparr>))) = [product_B]
   \<and> IdNum 1 \<notin> set (map id' (data (snd (snd (compute online_products
         (REMOVE_PRODUCT product_A) \<lparr>data = [product_A, product_B, product_A]\<rparr>)))))"
  using remove_product_removes_id
    [of online_products product_A
      "\<lparr>status = ''success'', message = ''Successfully deleted product'',
        payload = Some product_A\<rparr>"
      "\<lparr>data = [product_A, product_B, product_A]\<rparr>"]
  by (simp add: facade_defs)

text \<open>
  Claim C8. For every mutation whose type is neither \<open>READ_ALL_PRODUCT\<close> nor
  \<open>REMOVE_PRODUCT\<close> (the declared \<open>ADD_PRODUCT\<close> and \<open>UPDATE_PRODUCT\<close>),
  \<open>compute\<close> calls no CRUD operation, logs one warning naming the type, resolves, and
  leaves the facade exactly as it was.
\<close>

theorem unknown_mutation_is_ignored:
  "mutation_type m \<noteq> ''READ_ALL_PRODUCT'' \<Longrightarrow> mutation_type m \<noteq> ''REMOVE_PRODUCT'' \<Longrightarrow>
   compute svc m this =
     (Resolved (), [ConsoleWarn (''Unknown mutation type: '' @ mutation_type m)], this)"
  by (cases m) simp_all

theorem unknown_mutation_is_ignored_witness:
  "compute online_products (ADD_PRODUCT product_B) \<lparr>data = [product_A]\<rparr> =
     (Resolved (), [ConsoleWarn ''Unknown mutation type: ADD_PRODUCT''], \<lparr>data = [product_A]\<rparr>)
   \<and> compute online_products (UPDATE_PRODUCT product_A) \<lparr>data = [product_A]\<rparr> =
       (Resolved (), [ConsoleWarn ''Unknown mutation type: UPDATE_PRODUCT''],
        \<lparr>data = [product_A]\<rparr>)"
  using unknown_mutation_is_ignored
    [of "ADD_PRODUCT product_B" online_products "\<lparr>data = [product_A]\<rparr>"]
    unknown_mutation_is_ignored
    [of "UPDATE_PRODUCT product_A" online_products "\<lparr>data = [product_A]\<rparr>"]
  by simp

text \<open>
  Claim C10. The reactive value of the facade is a list at every moment: it starts as
  the empty list, and \<open>READ_ALL_PRODUCT\<close> sets it to the payload of the envelope of
  \<open>read\<close> when there is one and to the empty list when the payload is \<open>null\<close>, so
  an error envelope from \<open>read\<close> leaves \<open>data\<close> the empty list.
\<close>

theorem facade_data_after_read_all:
  "data (ProductFacade_init :: 'a WithUniqueId_scheme ProductFacade) = []
   \<and> (read svc = Resolved q \<longrightarrow>
        data (snd (snd (compute svc READ_ALL_PRODUCT this))) =
          (case payload q of None \<Rightarrow> [] | Some ps \<Rightarrow> ps))
   \<and> (read svc = Resolved q \<longrightarrow> status q = ''error'' \<longrightarrow> payload q = None \<longrightarrow>
        data (snd (snd (compute svc READ_ALL_PRODUCT this))) = [])"
  by (simp add: ProductFacade_init_def)

theorem facade_data_after_read_all_witness:
  "data (snd (snd (compute online_products READ_ALL_PRODUCT ProductFacade_init))) =
     [product_A, product_B]
   \<and> data (snd (snd (compute offline_products READ_ALL_PRODUCT \<lparr>data = [product_A]\<rparr>))) = []"
  using facade_data_after_read_all
    [of online_products
      "\<lparr>status = ''success'', message = ''Successfully read product'',
        payload = Some [product_A, product_B]\<rparr>" ProductFacade_init]
    facade_data_after_read_all
    [of offline_products
      "\<lparr>status = ''error'', message = ''Error reading product'', payload = None\<rparr>"
      "\<lparr>data = [product_A]\<rparr>"]
  by (simp add: online_products_def offline_products_def)

end
